theory Spec2Isabelle
  imports Main
begin

section \<open>Values, exceptions and responses\<close>

text \<open>
  The handlers of \<^verbatim>\<open>app.py\<close> receive a JSON request body and answer with a status code
  and a JSON body. A JSON value is what \<^verbatim>\<open>request.json\<close> gives the handler: \<^verbatim>\<open>None\<close>,
  a bool, an int, a str, a list or a dict (an association list, looked up with
  \<open>map_of\<close>). JSON numbers are modelled as Python ints; fractional numbers are left out.
\<close>

datatype json =
    JNull
  | JBool bool
  | JInt int
  | JStr string
  | JList "json list"
  | JObj "(string \<times> json) list"

text \<open>
  The exceptions a handler can meet. \<open>RequestException\<close> carries the status code of
  \<^verbatim>\<open>e.response\<close> when the exception has a response and \<open>None\<close> when it has none.
  \<open>HTTPException\<close> is what \<^verbatim>\<open>request.json\<close> raises on a body that is not JSON.
\<close>

datatype exn =
    KeyError
  | IndexError
  | TypeError
  | AttributeError
  | RequestException "nat option"
  | HTTPException
  | OtherException

record response =
  status :: nat
  body :: json

text \<open>\<^verbatim>\<open>jsonify(x)\<close> is status 200; \<^verbatim>\<open>jsonify(x), n\<close> is status \<open>n\<close>.\<close>

definition jsonify :: "json \<Rightarrow> nat \<Rightarrow> response" where
  "jsonify x n = \<lparr>status = n, body = x\<rparr>"

subsection \<open>Python's operations on JSON values\<close>

text \<open>Truthiness, as \<^verbatim>\<open>not x\<close> and \<^verbatim>\<open>if x\<close> read it.\<close>

fun truthy :: "json \<Rightarrow> bool" where
  "truthy JNull = False"
| "truthy (JBool b) = b"
| "truthy (JInt i) = (i \<noteq> 0)"
| "truthy (JStr s) = (s \<noteq> [])"
| "truthy (JList xs) = (xs \<noteq> [])"
| "truthy (JObj kvs) = (kvs \<noteq> [])"

text \<open>\<^verbatim>\<open>x.get(k, d)\<close>: only a dict has \<^verbatim>\<open>get\<close>.\<close>

fun dict_get :: "json \<Rightarrow> string \<Rightarrow> json \<Rightarrow> exn + json" where
  "dict_get (JObj kvs) k d = Inr (case map_of kvs k of None \<Rightarrow> d | Some v \<Rightarrow> v)"
| "dict_get _ k d = Inl AttributeError"

text \<open>\<^verbatim>\<open>x[k]\<close> with a str key \<open>k\<close>.\<close>

fun subscript_key :: "json \<Rightarrow> string \<Rightarrow> exn + json" where
  "subscript_key (JObj kvs) k = (case map_of kvs k of None \<Rightarrow> Inl KeyError | Some v \<Rightarrow> Inr v)"
| "subscript_key _ k = Inl TypeError"

text \<open>\<^verbatim>\<open>x[0]\<close>. A dict parsed from JSON has str keys only, so \<^verbatim>\<open>0\<close> is never a key.\<close>

fun subscript_0 :: "json \<Rightarrow> exn + json" where
  "subscript_0 (JList []) = Inl IndexError"
| "subscript_0 (JList (v # vs)) = Inr v"
| "subscript_0 (JStr []) = Inl IndexError"
| "subscript_0 (JStr (c # cs)) = Inr (JStr [c])"
| "subscript_0 (JObj kvs) = Inl KeyError"
| "subscript_0 _ = Inl TypeError"

text \<open>
  \<^verbatim>\<open>x in d\<close> for a dict \<open>d\<close> with str keys: the key is hashed first, and a list or a dict
  is unhashable.
\<close>

fun dict_contains :: "(string \<times> 'v) list \<Rightarrow> json \<Rightarrow> exn + bool" where
  "dict_contains d (JStr s) = Inr (map_of d s \<noteq> None)"
| "dict_contains d (JList xs) = Inl TypeError"
| "dict_contains d (JObj kvs) = Inl TypeError"
| "dict_contains d _ = Inr False"

text \<open>\<^verbatim>\<open>d[x]\<close> for a dict \<open>d\<close> with str keys.\<close>

fun dict_item :: "(string \<times> 'v) list \<Rightarrow> json \<Rightarrow> exn + 'v" where
  "dict_item d (JStr s) = (case map_of d s of None \<Rightarrow> Inl KeyError | Some v \<Rightarrow> Inr v)"
| "dict_item d (JList xs) = Inl TypeError"
| "dict_item d (JObj kvs) = Inl TypeError"
| "dict_item d _ = Inl KeyError"

subsection \<open>Formatting values in f-strings\<close>

text \<open>
  \<^verbatim>\<open>f"{x}"\<close> is \<^verbatim>\<open>str(x)\<close>: a str is itself, any other value is its \<^verbatim>\<open>repr\<close>.
  Characters are the code points below 256.
\<close>

definition digit_char :: "nat \<Rightarrow> char" where
  "digit_char n = (if n < 10 then char_of (48 + n) else char_of (87 + n))"

fun str_nat :: "nat \<Rightarrow> string" where
  "str_nat n = (if n < 10 then [digit_char n] else str_nat (n div 10) @ [digit_char (n mod 10)])"

declare str_nat.simps [simp del]

definition str_int :: "int \<Rightarrow> string" where
  "str_int i = (if i < 0 then CHR ''-'' # str_nat (nat (- i)) else str_nat (nat i))"

definition printable :: "char \<Rightarrow> bool" where
  "printable c =
     (let n = (of_char c :: nat)
      in \<not> (n < 32 \<or> n = 127 \<or> (128 \<le> n \<and> n \<le> 160) \<or> n = 173))"

definition repr_quote :: "string \<Rightarrow> char" where
  "repr_quote s = (if CHR 0x27 \<in> set s \<and> CHR 0x22 \<notin> set s then CHR 0x22 else CHR 0x27)"

definition repr_char :: "char \<Rightarrow> char \<Rightarrow> string" where
  "repr_char q c =
     (if c = q \<or> c = CHR 0x5C then [CHR 0x5C, c]
      else if c = CHR 0x09 then [CHR 0x5C, CHR ''t'']
      else if c = CHR 0x0A then [CHR 0x5C, CHR ''n'']
      else if c = CHR 0x0D then [CHR 0x5C, CHR ''r'']
      else if printable c then [c]
      else [CHR 0x5C, CHR ''x'',
            digit_char ((of_char c :: nat) div 16), digit_char ((of_char c :: nat) mod 16)])"

definition repr_str :: "string \<Rightarrow> string" where
  "repr_str s = (let q = repr_quote s in q # concat (map (repr_char q) s) @ [q])"

fun join :: "string \<Rightarrow> string list \<Rightarrow> string" where
  "join sep [] = []"
| "join sep [x] = x"
| "join sep (x # y # ys) = x @ sep @ join sep (y # ys)"

primrec py_repr :: "json \<Rightarrow> string" where
  "py_repr JNull = ''None''"
| "py_repr (JBool b) = (if b then ''True'' else ''False'')"
| "py_repr (JInt i) = str_int i"
| "py_repr (JStr s) = repr_str s"
| "py_repr (JList xs) = ''['' @ join '', '' (map py_repr xs) @ '']''"
| "py_repr (JObj kvs) =
     ''{'' @ join '', '' (map (\<lambda>(k, r). repr_str k @ '': '' @ r) (map (map_prod id py_repr) kvs)) @ ''}''"

definition py_str :: "json \<Rightarrow> string" where
  "py_str x = (case x of JStr s \<Rightarrow> s | _ \<Rightarrow> py_repr x)"

section \<open>The in-memory database\<close>

record user_account =
  name :: string
  points :: int

definition user_data :: user_account where
  "user_data = \<lparr>name = ''User'', points = 1250\<rparr>"

definition marketplace_items_db :: "(string \<times> int) list" where
  "marketplace_items_db =
     [(''Cloth Tote Bag'', 500),
      (''Seed Paper Pack'', 350),
      (''Bamboo Coffee Cup'', 750),
      (''Compost Bin'', 1500)]"

section \<open>The read endpoints\<close>

definition get_user :: "user_account \<Rightarrow> response" where
  "get_user u = jsonify (JObj [(''name'', JStr (name u)), (''points'', JInt (points u))]) 200"

definition leaderboard_entry :: "int \<Rightarrow> string \<Rightarrow> int \<Rightarrow> json" where
  "leaderboard_entry r n p = JObj [(''rank'', JInt r), (''name'', JStr n), (''points'', JInt p)]"

definition leaderboard_data :: "user_account \<Rightarrow> json list" where
  "leaderboard_data u =
     [leaderboard_entry 1 ''K Keerthana'' 5430,
      leaderboard_entry 2 ''Deepika'' 5120,
      leaderboard_entry 3 ''Aravind'' 4980,
      leaderboard_entry 4 ''Sai Charan'' 3200,
      leaderboard_entry 5 ''Priya'' 2150,
      leaderboard_entry 6 ''Ramesh'' 1500,
      leaderboard_entry 7 ''You'' (points u)]"

definition get_leaderboard :: "user_account \<Rightarrow> response" where
  "get_leaderboard u = jsonify (JList (leaderboard_data u)) 200"

definition marketplace_entry :: "string \<Rightarrow> string \<Rightarrow> int \<Rightarrow> json" where
  "marketplace_entry i n p = JObj [(''icon'', JStr i), (''name'', JStr n), (''points'', JInt p)]"

definition get_marketplace_items :: response where
  "get_marketplace_items =
     jsonify (JList
       [marketplace_entry ''fa-shopping-bag'' ''Cloth Tote Bag'' 500,
        marketplace_entry ''fa-seedling'' ''Seed Paper Pack'' 350,
        marketplace_entry ''fa-mug-hot'' ''Bamboo Coffee Cup'' 750,
        marketplace_entry ''fa-recycle'' ''Compost Bin'' 1500]) 200"

definition news_entry :: "string \<Rightarrow> string \<Rightarrow> string \<Rightarrow> json" where
  "news_entry t d c = JObj [(''title'', JStr t), (''date'', JStr d), (''content'', JStr c)]"

definition get_news :: response where
  "get_news =
     jsonify (JList
       [news_entry ''Community Clean-Up Drive This Sunday!'' ''October 8, 2025''
          (''Join us this Sunday at 8 AM near the Ramagundam Municipal Park for our monthly ''
           @ ''clean-up drive. Let's make our city shine together! Gloves and bags will be provided.''),
        news_entry ''BinMate Reaches 1,000 Users!'' ''September 28, 2025''
          (''We are thrilled to announce that over 1,000 residents are now using BinMate ''
           @ ''to make a difference.''),
        news_entry ''New Smart Bins Deployed in Sector 5'' ''September 15, 2025''
          (''As part of the Smart City initiative, 20 new IoT-enabled smart bins have been ''
           @ ''installed across Sector 5.'')]) 200"

section \<open>Redeeming an item\<close>

text \<open>
  \<open>redeem_item\<close> takes the request body (\<open>None\<close> when \<^verbatim>\<open>request.json\<close> raises) and the
  ledger, and returns what the handler returns or the exception it raises, with the
  ledger after the call. The handler has no \<^verbatim>\<open>try\<close>: an exception leaves it.
  \<^verbatim>\<open>not item_name or item_name not in marketplace_items_db\<close> evaluates the membership
  test only when \<^verbatim>\<open>item_name\<close> is truthy.
\<close>

definition redeem_item :: "json option \<Rightarrow> user_account \<Rightarrow> (exn + response) \<times> user_account" where
  "redeem_item request_json u =
     (case request_json of
        None \<Rightarrow> (Inl HTTPException, u)
      | Some j \<Rightarrow>
     (case dict_get j ''name'' JNull of
        Inl e \<Rightarrow> (Inl e, u)
      | Inr item_name \<Rightarrow>
     (case (if \<not> truthy item_name then Inr True
            else map_sum id Not (dict_contains marketplace_items_db item_name)) of
        Inl e \<Rightarrow> (Inl e, u)
      | Inr True \<Rightarrow>
          (Inr (jsonify (JObj [(''success'', JBool False),
                               (''message'', JStr ''Item not found.'')]) 404), u)
      | Inr False \<Rightarrow>
     (case dict_item marketplace_items_db item_name of
        Inl e \<Rightarrow> (Inl e, u)
      | Inr item_cost \<Rightarrow>
          if points u \<ge> item_cost then
            (let u' = u\<lparr>points := points u - item_cost\<rparr>
             in (Inr (jsonify (JObj [(''success'', JBool True),
                                     (''message'', JStr (''Successfully redeemed '' @ py_str item_name @ ''!'')),
                                     (''new_points'', JInt (points u'))]) 200), u'))
          else
            (Inr (jsonify (JObj [(''success'', JBool False),
                                 (''message'', JStr (''Not enough points to redeem '' @ py_str item_name @ ''.'')),
                                 (''new_points'', JInt (points u))]) 400), u)))))"

subsection \<open>Sequences of requests on the ledger\<close>

datatype request =
    Get_user
  | Get_leaderboard
  | Get_marketplace
  | Get_news
  | Post_redeem "json option"

fun handle :: "request \<Rightarrow> user_account \<Rightarrow> (exn + response) \<times> user_account" where
  "handle Get_user u = (Inr (get_user u), u)"
| "handle Get_leaderboard u = (Inr (get_leaderboard u), u)"
| "handle Get_marketplace u = (Inr get_marketplace_items, u)"
| "handle Get_news u = (Inr get_news, u)"
| "handle (Post_redeem j) u = redeem_item j u"

fun run :: "request list \<Rightarrow> user_account \<Rightarrow> user_account" where
  "run [] u = u"
| "run (r # rs) u = run rs (snd (handle r u))"

section \<open>The AI endpoints\<close>

text \<open>
  The remote service is outside the program. \<^verbatim>\<open>requests.post(api_url, json=payload)\<close>,
  \<^verbatim>\<open>response.raise_for_status()\<close> and \<^verbatim>\<open>response.json()\<close> together either raise a
  \<^verbatim>\<open>RequestException\<close> (with the status code of its response, or with no response, as
  on a connection failure), raise an exception that is neither a \<^verbatim>\<open>RequestException\<close>
  nor a \<^verbatim>\<open>KeyError\<close> nor an \<^verbatim>\<open>IndexError\<close>, or give the parsed reply. The handlers
  take that outcome as a function \<open>post\<close> of the URL and the payload, and return, with
  their result, the list of the outbound calls they made.
\<close>

datatype remote_result =
    Request_error "nat option"
  | Other_error
  | Reply json

type_synonym outbound_call = "string \<times> json"

text \<open>\<^verbatim>\<open>not api_key\<close> for the result of \<^verbatim>\<open>os.getenv\<close>: \<open>None\<close> when the variable is unset.\<close>

fun key_missing :: "string option \<Rightarrow> bool" where
  "key_missing None = True"
| "key_missing (Some k) = (k = [])"

definition api_url :: "string \<Rightarrow> string" where
  "api_url api_key =
     ''https://generativelanguage.googleapis.com/v1beta/models/gemini-1.5-flash-latest:generateContent?key=''
     @ api_key"

definition bind_exn :: "exn + 'a \<Rightarrow> ('a \<Rightarrow> exn + 'b) \<Rightarrow> exn + 'b" where
  "bind_exn r f = (case r of Inl e \<Rightarrow> Inl e | Inr x \<Rightarrow> f x)"

subsection \<open>Recommendations\<close>

definition recommend_prompt :: "json \<Rightarrow> string" where
  "recommend_prompt item_to_replace =
     ''I want to replace '' @ [CHR 0x27] @ py_str item_to_replace @ [CHR 0x27] @ ''. ''
     @ ''In a friendly and encouraging tone, suggest 1-3 common, eco-friendly alternatives. ''
     @ ''Keep the total response under 40 words. Start directly with the suggestion, ''
     @ ''for example: 'Instead of '' @ py_str item_to_replace @ '', you could try...'.''"

definition text_payload :: "string \<Rightarrow> json" where
  "text_payload prompt =
     JObj [(''contents'', JList [JObj [(''parts'', JList [JObj [(''text'', JStr prompt)]])]])]"

text \<open>Line 117: the chain of \<^verbatim>\<open>get\<close> with defaults and \<^verbatim>\<open>[0]\<close>.\<close>

definition recommendation_text :: "json \<Rightarrow> exn + json" where
  "recommendation_text ai_response =
     bind_exn (dict_get ai_response ''candidates'' (JList [JObj []])) (\<lambda>candidates.
     bind_exn (subscript_0 candidates) (\<lambda>candidate.
     bind_exn (dict_get candidate ''content'' (JObj [])) (\<lambda>content.
     bind_exn (dict_get content ''parts'' (JList [JObj []])) (\<lambda>parts.
     bind_exn (subscript_0 parts) (\<lambda>part.
     dict_get part ''text'' (JStr ''Sorry, I could not think of a recommendation right now.''))))))"

text \<open>
  The body of the \<^verbatim>\<open>try\<close>. The handler below runs it only when the key is present
  and non-empty, so \<open>the env_key\<close> there is the key itself.
\<close>

definition get_recommendation_try ::
  "string \<Rightarrow> (string \<Rightarrow> json \<Rightarrow> remote_result) \<Rightarrow> json option
   \<Rightarrow> (exn + response) \<times> outbound_call list" where
  "get_recommendation_try api_key post request_json =
     (case request_json of
        None \<Rightarrow> (Inl HTTPException, [])
      | Some j \<Rightarrow>
     (case subscript_key j ''item'' of
        Inl e \<Rightarrow> (Inl e, [])
      | Inr item_to_replace \<Rightarrow>
          if \<not> truthy item_to_replace then
            (Inr (jsonify (JObj [(''error'', JStr ''Item field cannot be empty.'')]) 400), [])
          else
            (let url = api_url api_key;
                 payload = text_payload (recommend_prompt item_to_replace)
             in (case post url payload of
                   Request_error sc \<Rightarrow> Inl (RequestException sc)
                 | Other_error \<Rightarrow> Inl OtherException
                 | Reply ai_response \<Rightarrow>
                     bind_exn (recommendation_text ai_response) (\<lambda>t.
                       Inr (jsonify (JObj [(''recommendation'', t)]) 200)),
                 [(url, payload)]))))"

definition get_recommendation ::
  "string option \<Rightarrow> (string \<Rightarrow> json \<Rightarrow> remote_result) \<Rightarrow> json option
   \<Rightarrow> (exn + response) \<times> outbound_call list" where
  "get_recommendation env_key post request_json =
     (if key_missing env_key then
        (Inr (jsonify (JObj [(''error'', JStr ''API key not configured on the server.'')]) 500), [])
      else
        (case get_recommendation_try (the env_key) post request_json of
           (Inr r, calls) \<Rightarrow> (Inr r, calls)
         | (Inl (RequestException sc), calls) \<Rightarrow>
             (Inr (jsonify (JObj [(''error'', JStr ''Could not reach the AI service.'')]) 500), calls)
         | (Inl KeyError, calls) \<Rightarrow>
             (Inr (jsonify (JObj [(''error'',
                JStr ''Received an invalid response from the AI service.'')]) 500), calls)
         | (Inl IndexError, calls) \<Rightarrow>
             (Inr (jsonify (JObj [(''error'',
                JStr ''Received an invalid response from the AI service.'')]) 500), calls)
         | (Inl _, calls) \<Rightarrow>
             (Inr (jsonify (JObj [(''error'', JStr ''An internal server error occurred.'')]) 500), calls)))"

subsection \<open>Scanning an image\<close>

definition scan_instruction :: string where
  "scan_instruction =
     ''Analyze this image and identify the main waste item. Classify it into one of these ''
     @ ''three categories: Biodegradable, Recyclable, or Hazardous. Respond with only one of ''
     @ ''these three words, followed by a colon and the name of the item. ''
     @ ''For example: 'Recyclable: Plastic Bottle'.''"

definition scan_payload :: "json \<Rightarrow> json" where
  "scan_payload image_data =
     JObj [(''contents'', JList [JObj [(''parts'', JList
       [JObj [(''text'', JStr scan_instruction)],
        JObj [(''inlineData'',
          JObj [(''mimeType'', JStr ''image/jpeg''), (''data'', image_data)])]])]])]"

definition scan_image_try ::
  "string \<Rightarrow> (string \<Rightarrow> json \<Rightarrow> remote_result) \<Rightarrow> json option
   \<Rightarrow> (exn + response) \<times> outbound_call list" where
  "scan_image_try api_key post request_json =
     (case request_json of
        None \<Rightarrow> (Inl HTTPException, [])
      | Some j \<Rightarrow>
     (case subscript_key j ''imageData'' of
        Inl e \<Rightarrow> (Inl e, [])
      | Inr image_data \<Rightarrow>
          (let url = api_url api_key;
               payload = scan_payload image_data
           in (case post url payload of
                 Request_error sc \<Rightarrow> Inl (RequestException sc)
               | Other_error \<Rightarrow> Inl OtherException
               | Reply r \<Rightarrow> Inr (jsonify r 200),
               [(url, payload)]))))"

text \<open>
  The handler of \<^verbatim>\<open>RequestException\<close> reads \<^verbatim>\<open>e.response.status_code\<close>: when the
  exception has no response, \<^verbatim>\<open>e.response\<close> is \<^verbatim>\<open>None\<close> and the read raises
  \<^verbatim>\<open>AttributeError\<close> inside the handler, which no clause of the same \<^verbatim>\<open>try\<close> catches.
\<close>

definition scan_image ::
  "string option \<Rightarrow> (string \<Rightarrow> json \<Rightarrow> remote_result) \<Rightarrow> json option
   \<Rightarrow> (exn + response) \<times> outbound_call list" where
  "scan_image env_key post request_json =
     (if key_missing env_key then
        (Inr (jsonify (JObj [(''error'', JStr ''API key not configured on the server.'')]) 500), [])
      else
        (case scan_image_try (the env_key) post request_json of
           (Inr r, calls) \<Rightarrow> (Inr r, calls)
         | (Inl (RequestException None), calls) \<Rightarrow> (Inl AttributeError, calls)
         | (Inl (RequestException (Some status_code)), calls) \<Rightarrow>
             (Inr (jsonify (JObj [(''error'',
                JStr (''Could not reach Google API. Status: '' @ str_nat status_code))]) 500), calls)
         | (Inl KeyError, calls) \<Rightarrow>
             (Inr (jsonify (JObj [(''error'',
                JStr ''Invalid request: \"imageData\" field missing.'')]) 400), calls)
         | (Inl _, calls) \<Rightarrow>
             (Inr (jsonify (JObj [(''error'', JStr ''An internal server error occurred.'')]) 500), calls)))"

subsection \<open>Some remote services\<close>

text \<open>Outcomes of the remote call used to run the handlers on concrete requests.\<close>

definition connection_refused :: "string \<Rightarrow> json \<Rightarrow> remote_result" where
  "connection_refused url payload = Request_error None"

definition service_unavailable :: "string \<Rightarrow> json \<Rightarrow> remote_result" where
  "service_unavailable url payload = Request_error (Some 503)"

definition replies_empty_object :: "string \<Rightarrow> json \<Rightarrow> remote_result" where
  "replies_empty_object url payload = Reply (JObj [])"

definition replies_no_candidates :: "string \<Rightarrow> json \<Rightarrow> remote_result" where
  "replies_no_candidates url payload = Reply (JObj [(''candidates'', JList [])])"

definition replies_null_candidate :: "string \<Rightarrow> json \<Rightarrow> remote_result" where
  "replies_null_candidate url payload = Reply (JObj [(''candidates'', JList [JNull])])"

definition replies_recyclable :: "string \<Rightarrow> json \<Rightarrow> remote_result" where
  "replies_recyclable url payload =
     Reply (JObj [(''candidates'', JList [JObj [(''content'',
       JObj [(''parts'', JList [JObj [(''text'', JStr ''Recyclable: Plastic Bottle'')]])])]])])"

subsection \<open>Observations on values\<close>

text \<open>A list or a dict cannot be hashed; every other value can.\<close>

fun hashable :: "json \<Rightarrow> bool" where
  "hashable (JList xs) = False"
| "hashable (JObj kvs) = False"
| "hashable _ = True"

text \<open>The shape of a value: a dict, a list.\<close>

fun is_object :: "json \<Rightarrow> bool" where
  "is_object (JObj kvs) = True"
| "is_object _ = False"

fun is_list :: "json \<Rightarrow> bool" where
  "is_list (JList xs) = True"
| "is_list _ = False"

text \<open>The \<^verbatim>\<open>points\<close> of the entries of a list whose \<^verbatim>\<open>name\<close> is \<open>n\<close>.\<close>

definition points_of :: "string \<Rightarrow> json list \<Rightarrow> (exn + json) list" where
  "points_of n entries =
     map (\<lambda>e. subscript_key e ''points'')
       (filter (\<lambda>e. subscript_key e ''name'' = Inr (JStr n)) entries)"

section \<open>Properties of redemption\<close>

lemma db_key_nonempty: "map_of marketplace_items_db s = Some c \<Longrightarrow> s \<noteq> []"
  by (auto simp: marketplace_items_db_def split: if_splits)

text \<open>
  C1. A request whose item name is a key of the catalog with cost \<open>c\<close>, made when the
  user's points \<open>p\<close> satisfy \<open>p \<ge> c\<close>, is answered with success, \<open>new_points = p - c\<close>,
  and the stored balance after the call is \<open>p - c\<close>.
\<close>

theorem redeem_item_success:
  assumes "dict_get j ''name'' JNull = Inr (JStr item)"
    and "map_of marketplace_items_db item = Some c"
    and "c \<le> points u"
  shows "redeem_item (Some j) u =
           (Inr (jsonify (JObj [(''success'', JBool True),
                                (''message'', JStr (''Successfully redeemed '' @ item @ ''!'')),
                                (''new_points'', JInt (points u - c))]) 200),
            u\<lparr>points := points u - c\<rparr>)"
  using assms db_key_nonempty [OF assms(2)]
  by (simp add: redeem_item_def py_str_def Let_def)

theorem redeem_item_success_witness:
  "redeem_item (Some (JObj [(''name'', JStr ''Cloth Tote Bag'')])) user_data =
     (Inr (jsonify (JObj [(''success'', JBool True),
                          (''message'', JStr ''Successfully redeemed Cloth Tote Bag!''),
                          (''new_points'', JInt 750)]) 200),
      \<lparr>name = ''User'', points = 750\<rparr>)"
  using redeem_item_success
    [of "JObj [(''name'', JStr ''Cloth Tote Bag'')]" "''Cloth Tote Bag''" 500 user_data]
  by (simp add: marketplace_items_db_def user_data_def)

text \<open>
  C2. A request whose item name is a key of the catalog with cost \<open>c\<close>, made when the
  user's points \<open>p\<close> satisfy \<open>p < c\<close>, is answered with status 400, \<open>success = false\<close> and
  \<open>new_points = p\<close>, and the stored balance is unchanged.
\<close>

theorem redeem_item_insufficient:
  assumes "dict_get j ''name'' JNull = Inr (JStr item)"
    and "map_of marketplace_items_db item = Some c"
    and "points u < c"
  shows "redeem_item (Some j) u =
           (Inr (jsonify (JObj [(''success'', JBool False),
                                (''message'', JStr (''Not enough points to redeem '' @ item @ ''.'')),
                                (''new_points'', JInt (points u))]) 400),
            u)"
  using assms db_key_nonempty [OF assms(2)]
  by (simp add: redeem_item_def py_str_def Let_def)

theorem redeem_item_insufficient_witness:
  "redeem_item (Some (JObj [(''name'', JStr ''Compost Bin'')])) user_data =
     (Inr (jsonify (JObj [(''success'', JBool False),
                          (''message'', JStr ''Not enough points to redeem Compost Bin.''),
                          (''new_points'', JInt 1250)]) 400),
      user_data)"
  using redeem_item_insufficient
    [of "JObj [(''name'', JStr ''Compost Bin'')]" "''Compost Bin''" 1500 user_data]
  by (simp add: marketplace_items_db_def user_data_def)

subsection \<open>The balance never goes negative\<close>

lemma redeem_item_nonneg: "0 \<le> points u \<Longrightarrow> 0 \<le> points (snd (redeem_item rq u))"
  by (auto simp: redeem_item_def Let_def split: option.splits sum.splits bool.splits if_splits)

lemma handle_nonneg: "0 \<le> points u \<Longrightarrow> 0 \<le> points (snd (handle r u))"
  by (cases r) (simp_all add: redeem_item_nonneg)

lemma run_nonneg: "0 \<le> points u \<Longrightarrow> 0 \<le> points (run rs u)"
  by (induction rs arbitrary: u) (simp_all add: handle_nonneg)

text \<open>
  C4. Starting from the initial balance 1250, every sequence of reads and redemptions, with
  any request bodies, leaves the stored points non-negative.
\<close>

theorem points_never_negative: "0 \<le> points (run rs user_data)"
  by (rule run_nonneg) (simp add: user_data_def)

theorem points_never_negative_witness:
  "0 \<le> points
     (run [Post_redeem (Some (JObj [(''name'', JStr ''Bamboo Coffee Cup'')])),
           Get_leaderboard,
           Post_redeem (Some (JObj [(''name'', JStr ''Cloth Tote Bag'')])),
           Post_redeem (Some (JObj [(''name'', JStr ''Cloth Tote Bag'')])),
           Post_redeem None,
           Get_user] user_data)"
  using points_never_negative
    [of "[Post_redeem (Some (JObj [(''name'', JStr ''Bamboo Coffee Cup'')])),
          Get_leaderboard,
          Post_redeem (Some (JObj [(''name'', JStr ''Cloth Tote Bag'')])),
          Post_redeem (Some (JObj [(''name'', JStr ''Cloth Tote Bag'')])),
          Post_redeem None,
          Get_user]"]
  by simp

subsection \<open>Unknown items\<close>

text \<open>
  A request with no name, a falsy name, or a hashable name that is not a key of the catalog
  is answered with 404 and \<open>Item not found.\<close>, and the ledger is unchanged.
\<close>

lemma redeem_item_not_found:
  assumes "dict_get j ''name'' JNull = Inr v"
    and "\<not> truthy v \<or> (hashable v \<and> v \<notin> JStr ` fst ` set marketplace_items_db)"
  shows "redeem_item (Some j) u =
           (Inr (jsonify (JObj [(''success'', JBool False),
                                (''message'', JStr ''Item not found.'')]) 404), u)"
proof (cases "truthy v")
  case False
  with assms(1) show ?thesis by (simp add: redeem_item_def)
next
  case True
  with assms(2) have h: "hashable v" and n: "v \<notin> JStr ` fst ` set marketplace_items_db"
    by simp_all
  have "dict_contains marketplace_items_db v = Inr False"
  proof (cases v)
    case (JStr s)
    with n have "s \<notin> fst ` set marketplace_items_db" by blast
    then have "map_of marketplace_items_db s = None" by (simp add: map_of_eq_None_iff)
    with JStr show ?thesis by simp
  qed (use h in simp_all)
  with assms(1) True show ?thesis by (simp add: redeem_item_def)
qed

lemma redeem_item_not_found_example:
  "redeem_item (Some (JObj [(''name'', JStr ''Unicorn'')])) user_data =
     (Inr (jsonify (JObj [(''success'', JBool False),
                          (''message'', JStr ''Item not found.'')]) 404), user_data)"
  using redeem_item_not_found [of "JObj [(''name'', JStr ''Unicorn'')]" "JStr ''Unicorn''" user_data]
  by (simp add: marketplace_items_db_def)

text \<open>
  C3. The claim is that every request whose item name is empty or is not a key of the
  catalog is answered with 404. A name that is a non-empty list is not a key of the
  catalog; the membership test raises \<open>TypeError\<close> on it and the handler does not return.
\<close>

theorem redeem_item_unhashable_name:
  "redeem_item (Some (JObj [(''name'', JList [JStr ''Unicorn''])])) user_data =
     (Inl TypeError, user_data)"
  by (simp add: redeem_item_def)

section \<open>Properties of the leaderboard\<close>

lemma redeem_item_ledger:
  assumes "dict_get j ''name'' JNull = Inr (JStr item)"
    and "map_of marketplace_items_db item = Some c"
    and "c \<le> points u"
  shows "snd (redeem_item (Some j) u) = u\<lparr>points := points u - c\<rparr>"
  using assms db_key_nonempty [OF assms(2)]
  by (simp add: redeem_item_def Let_def)

text \<open>
  C9. For every state of the ledger the leaderboard has exactly 7 entries, with ranks
  1 to 7 in ascending order, and the entry named \<open>You\<close> carries the ledger's points as
  they are when the request is made; after a successful redemption of an item of cost
  \<open>c\<close>, the leaderboard shows the balance less \<open>c\<close>.
\<close>

theorem leaderboard_read_through:
  "status (get_leaderboard u) = 200
   \<and> body (get_leaderboard u) = JList (leaderboard_data u)
   \<and> length (leaderboard_data u) = 7
   \<and> map (\<lambda>e. subscript_key e ''rank'') (leaderboard_data u) =
       [Inr (JInt 1), Inr (JInt 2), Inr (JInt 3), Inr (JInt 4),
        Inr (JInt 5), Inr (JInt 6), Inr (JInt 7)]
   \<and> points_of ''You'' (leaderboard_data u) = [Inr (JInt (points u))]
   \<and> (dict_get j ''name'' JNull = Inr (JStr item) \<longrightarrow>
      map_of marketplace_items_db item = Some c \<longrightarrow> c \<le> points u \<longrightarrow>
        points_of ''You'' (leaderboard_data (snd (redeem_item (Some j) u))) =
          [Inr (JInt (points u - c))])"
proof -
  have you: "points_of ''You'' (leaderboard_data v) = [Inr (JInt (points v))]" for v
    by (simp add: points_of_def leaderboard_data_def leaderboard_entry_def)
  have "status (get_leaderboard u) = 200"
    and "body (get_leaderboard u) = JList (leaderboard_data u)"
    by (simp_all add: get_leaderboard_def jsonify_def)
  moreover have "length (leaderboard_data u) = 7"
    by (simp add: leaderboard_data_def)
  moreover have "map (\<lambda>e. subscript_key e ''rank'') (leaderboard_data u) =
       [Inr (JInt 1), Inr (JInt 2), Inr (JInt 3), Inr (JInt 4),
        Inr (JInt 5), Inr (JInt 6), Inr (JInt 7)]"
    by (simp add: leaderboard_data_def leaderboard_entry_def)
  ultimately show ?thesis
    by (simp add: you redeem_item_ledger)
qed

theorem leaderboard_read_through_witness:
  "points_of ''You'' (leaderboard_data
      (snd (redeem_item (Some (JObj [(''name'', JStr ''Seed Paper Pack'')])) user_data))) =
     [Inr (JInt 900)]"
  using leaderboard_read_through
    [of user_data "JObj [(''name'', JStr ''Seed Paper Pack'')]" "''Seed Paper Pack''" 350]
  by (simp add: marketplace_items_db_def user_data_def)

section \<open>Properties of the AI endpoints\<close>

text \<open>
  C5. When the API key is absent, both AI endpoints answer with status 500 and the
  configuration error, and make no outbound call, whatever the request body and the
  remote service are.
\<close>

theorem missing_api_key:
  "get_recommendation None post rq =
     (Inr (jsonify (JObj [(''error'', JStr ''API key not configured on the server.'')]) 500), [])
   \<and> scan_image None post rq =
     (Inr (jsonify (JObj [(''error'', JStr ''API key not configured on the server.'')]) 500), [])"
  by (simp add: get_recommendation_def scan_image_def)

theorem missing_api_key_witness:
  "get_recommendation None replies_recyclable (Some (JObj [(''item'', JStr ''plastic straw'')])) =
     (Inr (jsonify (JObj [(''error'', JStr ''API key not configured on the server.'')]) 500), [])
   \<and> scan_image None replies_recyclable (Some (JObj [(''item'', JStr ''plastic straw'')])) =
     (Inr (jsonify (JObj [(''error'', JStr ''API key not configured on the server.'')]) 500), [])"
  using missing_api_key [of replies_recyclable "Some (JObj [(''item'', JStr ''plastic straw'')])"]
  by simp

subsection \<open>The item of a recommendation request\<close>

text \<open>An item that is present and falsy is rejected with status 400, before any call.\<close>

lemma recommend_empty_item:
  assumes "\<not> key_missing env_key" and "subscript_key j ''item'' = Inr v" and "\<not> truthy v"
  shows "get_recommendation env_key post (Some j) =
     (Inr (jsonify (JObj [(''error'', JStr ''Item field cannot be empty.'')]) 400), [])"
  using assms by (simp add: get_recommendation_def get_recommendation_try_def)

lemma recommend_empty_item_example:
  "get_recommendation (Some ''secret'') replies_recyclable (Some (JObj [(''item'', JStr [])])) =
     (Inr (jsonify (JObj [(''error'', JStr ''Item field cannot be empty.'')]) 400), [])"
  using recommend_empty_item
    [of "Some ''secret''" "JObj [(''item'', JStr [])]" "JStr []" replies_recyclable]
  by simp

text \<open>
  A body that is a dict without the key \<open>item\<close> raises \<open>KeyError\<close>, which the clause for
  \<open>KeyError\<close> and \<open>IndexError\<close> turns into status 500.
\<close>

lemma recommend_missing_item:
  assumes "\<not> key_missing env_key" and "map_of kvs ''item'' = None"
  shows "get_recommendation env_key post (Some (JObj kvs)) =
     (Inr (jsonify (JObj [(''error'',
        JStr ''Received an invalid response from the AI service.'')]) 500), [])"
  using assms by (simp add: get_recommendation_def get_recommendation_try_def)

text \<open>
  C6. The claim is that a request to \<^verbatim>\<open>/api/recommend\<close> whose body lacks the field
  \<open>item\<close> fails with status 400 when the API key is configured. On the body \<^verbatim>\<open>{}\<close> the
  handler answers with status 500 and the message about the AI service's response.
\<close>

theorem recommend_missing_item_is_500:
  "get_recommendation (Some ''secret'') replies_recyclable (Some (JObj [])) =
     (Inr (jsonify (JObj [(''error'',
        JStr ''Received an invalid response from the AI service.'')]) 500), [])"
  by (simp add: get_recommendation_def get_recommendation_try_def)

subsection \<open>Replies with missing fields\<close>

text \<open>What the handler returns once the remote service has replied.\<close>

lemma get_recommendation_reply:
  assumes "\<not> key_missing (Some k)" and "subscript_key j ''item'' = Inr item" and "truthy item"
    and "post (api_url k) (text_payload (recommend_prompt item)) = Reply ai"
  shows "fst (get_recommendation (Some k) post (Some j)) =
     (case recommendation_text ai of
        Inr t \<Rightarrow> Inr (jsonify (JObj [(''recommendation'', t)]) 200)
      | Inl (RequestException sc) \<Rightarrow>
          Inr (jsonify (JObj [(''error'', JStr ''Could not reach the AI service.'')]) 500)
      | Inl KeyError \<Rightarrow> Inr (jsonify (JObj [(''error'',
          JStr ''Received an invalid response from the AI service.'')]) 500)
      | Inl IndexError \<Rightarrow> Inr (jsonify (JObj [(''error'',
          JStr ''Received an invalid response from the AI service.'')]) 500)
      | Inl _ \<Rightarrow> Inr (jsonify (JObj [(''error'', JStr ''An internal server error occurred.'')]) 500))"
  using assms
  by (simp add: get_recommendation_def get_recommendation_try_def bind_exn_def Let_def
      split: sum.splits exn.splits)

text \<open>
  C7. The claim is that a reply without the expected fields makes the endpoint fail. On
  the reply \<^verbatim>\<open>{}\<close> every \<^verbatim>\<open>get\<close> takes its default and the endpoint answers with status
  200 and the fallback recommendation.
\<close>

theorem recommend_missing_fields_counterexample:
  "fst (get_recommendation (Some ''secret'') replies_empty_object
          (Some (JObj [(''item'', JStr ''plastic straw'')]))) =
     Inr (jsonify (JObj [(''recommendation'',
       JStr ''Sorry, I could not think of a recommendation right now.'')]) 200)"
  by (simp add: get_recommendation_def get_recommendation_try_def replies_empty_object_def
      recommendation_text_def bind_exn_def Let_def)

text \<open>
  C7, as amended. When the remote call succeeds, the endpoint reads
  \<^verbatim>\<open>candidates[0].content.parts[0].text\<close> from the reply, with \<^verbatim>\<open>[{}]\<close> for a missing
  \<open>candidates\<close> or \<open>parts\<close>, \<^verbatim>\<open>{}\<close> for a missing \<open>content\<close> and the fallback sentence
  for a missing \<open>text\<close>. When the reply is a JSON object and the first candidate, the
  content and the first part, where present, are JSON objects, a missing key on that path
  does not fail: the endpoint answers with status 200 and the fallback recommendation
  (with the text itself when every key is present). The endpoint answers with status 500
  and the message that the response of the AI service was invalid when \<open>candidates\<close> or
  \<open>parts\<close> is present and is an empty list, an empty string or an object. It answers
  with status 500 and the message of an internal error when the reply is not an object,
  when the first candidate, the content or the first part is present and is not an
  object, or when \<open>candidates\<close> or \<open>parts\<close> is present and is null, a bool, a number or
  a non-empty string.
\<close>

theorem recommend_missing_fields:
  assumes "\<not> key_missing (Some k)" and "subscript_key j ''item'' = Inr item" and "truthy item"
    and "post (api_url k) (text_payload (recommend_prompt item)) = Reply r"
  shows
  "
   (\<not> is_object r \<longrightarrow>
      fst (get_recommendation (Some k) post (Some j)) =
        Inr (jsonify (JObj [(''error'',
          JStr ''An internal server error occurred.'')]) 500))
    \<and>
   (r = JObj ai \<longrightarrow>
       (map_of ai ''candidates'' = None \<longrightarrow>
          fst (get_recommendation (Some k) post (Some j)) =
            Inr (jsonify (JObj [(''recommendation'',
              JStr ''Sorry, I could not think of a recommendation right now.'')]) 200))
      \<and>
       (map_of ai ''candidates'' = Some v \<longrightarrow>
        is_object v \<or> v = JStr [] \<or> v = JList [] \<longrightarrow>
          fst (get_recommendation (Some k) post (Some j)) =
            Inr (jsonify (JObj [(''error'',
              JStr ''Received an invalid response from the AI service.'')]) 500))
      \<and>
       (map_of ai ''candidates'' = Some v \<longrightarrow>
        \<not> is_list v \<longrightarrow>
        \<not> is_object v \<longrightarrow>
        v \<noteq> JStr [] \<longrightarrow>
          fst (get_recommendation (Some k) post (Some j)) =
            Inr (jsonify (JObj [(''error'',
              JStr ''An internal server error occurred.'')]) 500))
      \<and>
       (map_of ai ''candidates'' = Some (JList (c # cs)) \<longrightarrow>
        \<not> is_object c \<longrightarrow>
          fst (get_recommendation (Some k) post (Some j)) =
            Inr (jsonify (JObj [(''error'',
              JStr ''An internal server error occurred.'')]) 500))
      \<and>
       (map_of ai ''candidates'' = Some (JList (JObj cand # cs)) \<longrightarrow>
          (map_of cand ''content'' = None \<longrightarrow>
             fst (get_recommendation (Some k) post (Some j)) =
               Inr (jsonify (JObj [(''recommendation'',
                 JStr ''Sorry, I could not think of a recommendation right now.'')]) 200))
          \<and>
          (map_of cand ''content'' = Some ct \<longrightarrow>
           \<not> is_object ct \<longrightarrow>
             fst (get_recommendation (Some k) post (Some j)) =
               Inr (jsonify (JObj [(''error'',
                 JStr ''An internal server error occurred.'')]) 500))
          \<and>
          (map_of cand ''content'' = Some (JObj content) \<longrightarrow>
             (map_of content ''parts'' = None \<longrightarrow>
                fst (get_recommendation (Some k) post (Some j)) =
                  Inr (jsonify (JObj [(''recommendation'',
                    JStr ''Sorry, I could not think of a recommendation right now.'')]) 200))
             \<and>
             (map_of content ''parts'' = Some w \<longrightarrow>
              is_object w \<or> w = JStr [] \<or> w = JList [] \<longrightarrow>
                fst (get_recommendation (Some k) post (Some j)) =
                  Inr (jsonify (JObj [(''error'',
                    JStr ''Received an invalid response from the AI service.'')]) 500))
             \<and>
             (map_of content ''parts'' = Some w \<longrightarrow>
              \<not> is_list w \<longrightarrow>
              \<not> is_object w \<longrightarrow>
              w \<noteq> JStr [] \<longrightarrow>
                fst (get_recommendation (Some k) post (Some j)) =
                  Inr (jsonify (JObj [(''error'',
                    JStr ''An internal server error occurred.'')]) 500))
             \<and>
             (map_of content ''parts'' = Some (JList (p # ps)) \<longrightarrow>
              \<not> is_object p \<longrightarrow>
                fst (get_recommendation (Some k) post (Some j)) =
                  Inr (jsonify (JObj [(''error'',
                    JStr ''An internal server error occurred.'')]) 500))
             \<and>
             (map_of content ''parts'' = Some (JList (JObj part # ps)) \<longrightarrow>
                (map_of part ''text'' = None \<longrightarrow>
                   fst (get_recommendation (Some k) post (Some j)) =
                     Inr (jsonify (JObj [(''recommendation'',
                       JStr ''Sorry, I could not think of a recommendation right now.'')]) 200))
                \<and>
                (map_of part ''text'' = Some t \<longrightarrow>
                   fst (get_recommendation (Some k) post (Some j)) =
                     Inr (jsonify (JObj [(''recommendation'', t)]) 200))))))"
proof -
  have nonobj: "dict_get x key d = Inl AttributeError" if "\<not> is_object x" for x key d
    using that by (cases x) simp_all
  have bad0: "subscript_0 x = Inl KeyError \<or> subscript_0 x = Inl IndexError"
    if "is_object x \<or> x = JStr [] \<or> x = JList []" for x
    using that by (cases x) auto
  have odd0: "subscript_0 x = Inl TypeError \<or> (\<exists>ch. subscript_0 x = Inr (JStr [ch]))"
    if "\<not> is_list x" "\<not> is_object x" "x \<noteq> JStr []" for x
    using that by (cases x) (auto simp: neq_Nil_conv)
  note R = get_recommendation_reply [of k j item post r, OF assms]
  show ?thesis
    unfolding R
    apply (intro conjI impI)
    subgoal by (simp add: recommendation_text_def bind_exn_def nonobj)
    subgoal by (simp add: recommendation_text_def bind_exn_def)
    subgoal using bad0 [of v] by (auto simp: recommendation_text_def bind_exn_def)
    subgoal using odd0 [of v] by (auto simp: recommendation_text_def bind_exn_def)
    subgoal by (simp add: recommendation_text_def bind_exn_def nonobj)
    subgoal by (simp add: recommendation_text_def bind_exn_def)
    subgoal by (simp add: recommendation_text_def bind_exn_def nonobj)
    subgoal by (simp add: recommendation_text_def bind_exn_def)
    subgoal using bad0 [of w] by (auto simp: recommendation_text_def bind_exn_def)
    subgoal using odd0 [of w] by (auto simp: recommendation_text_def bind_exn_def)
    subgoal by (simp add: recommendation_text_def bind_exn_def nonobj)
    subgoal by (simp add: recommendation_text_def bind_exn_def)
    subgoal by (simp add: recommendation_text_def bind_exn_def)
    done
qed

theorem recommend_missing_fields_witness:
  "fst (get_recommendation (Some ''secret'') replies_no_candidates
          (Some (JObj [(''item'', JStr ''plastic straw'')]))) =
     Inr (jsonify (JObj [(''error'',
       JStr ''Received an invalid response from the AI service.'')]) 500)"
  using recommend_missing_fields
    [where k = "''secret''" and j = "JObj [(''item'', JStr ''plastic straw'')]"
       and item = "JStr ''plastic straw''" and post = replies_no_candidates
       and r = "JObj [(''candidates'', JList [])]" and ai = "[(''candidates'', JList [])]"
       and v = "JList []"]
  by (simp add: replies_no_candidates_def)

text \<open>A first candidate that is \<^verbatim>\<open>null\<close> has no \<^verbatim>\<open>get\<close>: the error is the internal one.\<close>

lemma recommend_null_candidate_example:
  "fst (get_recommendation (Some ''secret'') replies_null_candidate
          (Some (JObj [(''item'', JStr ''plastic straw'')]))) =
     Inr (jsonify (JObj [(''error'', JStr ''An internal server error occurred.'')]) 500)"
  by (simp add: get_recommendation_def get_recommendation_try_def replies_null_candidate_def
      recommendation_text_def bind_exn_def Let_def)

subsection \<open>Transport failures of the image scan\<close>

text \<open>
  A \<open>RequestException\<close> that carries a response is answered with status 500 and a message
  with the status code of that response.
\<close>

lemma scan_image_http_error:
  assumes "\<not> key_missing (Some k)" and "subscript_key j ''imageData'' = Inr d"
    and "post (api_url k) (scan_payload d) = Request_error (Some sc)"
  shows "scan_image (Some k) post (Some j) =
     (Inr (jsonify (JObj [(''error'',
        JStr (''Could not reach Google API. Status: '' @ str_nat sc))]) 500),
      [(api_url k, scan_payload d)])"
  using assms by (simp add: scan_image_def scan_image_try_def Let_def)

lemma scan_image_http_error_example:
  "fst (scan_image (Some ''secret'') service_unavailable
          (Some (JObj [(''imageData'', JStr ''aGk='')]))) =
     Inr (jsonify (JObj [(''error'', JStr ''Could not reach Google API. Status: 503'')]) 500)"
proof -
  have "str_nat 503 = ''503''"
    by code_simp
  with scan_image_http_error
    [of "''secret''" "JObj [(''imageData'', JStr ''aGk='')]" "JStr ''aGk=''" service_unavailable 503]
  show ?thesis
    by (simp add: service_unavailable_def)
qed

text \<open>
  C8. The claim is that a transport failure with no remote response, such as a connection
  failure, is still answered with the error of an unavailable service. On such a failure
  the handler of the exception raises \<open>AttributeError\<close> and the endpoint returns no
  response of its own.
\<close>

theorem scan_image_connection_failure:
  "scan_image (Some ''secret'') connection_refused (Some (JObj [(''imageData'', JStr ''aGk='')])) =
     (Inl AttributeError, [(api_url ''secret'', scan_payload (JStr ''aGk=''))])"
  by (simp add: scan_image_def scan_image_try_def connection_refused_def Let_def)

subsection \<open>Empty image data\<close>

text \<open>
  C10. With the API key configured, \<^verbatim>\<open>/api/scan/image\<close> answers with status 400 exactly
  when the body is a dict without the key \<open>imageData\<close>, and then with the message that the
  field is missing. An \<open>imageData\<close> that is present, the empty string included, is
  accepted whatever its value \<open>d\<close>: the handler makes one outbound call, to the URL of the
  Gemini model with the key appended, whose payload holds the classification instruction
  and the inline data with \<open>d\<close> as its \<open>data\<close>, and the reply of the service is returned
  with status 200. \<^verbatim>\<open>/api/recommend\<close> rejects an \<open>item\<close> that is the empty string with
  status 400 and makes no call.
\<close>

theorem scan_image_empty_image_data:
  assumes "k \<noteq> []"
  shows
   "((\<exists>r. fst (scan_image (Some k) post rq) = Inr r \<and> status r = 400) =
       (\<exists>kvs. rq = Some (JObj kvs) \<and> map_of kvs ''imageData'' = None))
    \<and> (map_of kvs ''imageData'' = None \<longrightarrow>
        scan_image (Some k) post (Some (JObj kvs)) =
          (Inr (jsonify (JObj [(''error'',
             JStr ''Invalid request: \"imageData\" field missing.'')]) 400), []))
    \<and> (map_of kvs ''imageData'' = Some d \<longrightarrow>
        (let url = ''https://generativelanguage.googleapis.com/v1beta/models/''
                   @ ''gemini-1.5-flash-latest:generateContent?key='' @ k;
             payload =
               JObj [(''contents'', JList [JObj [(''parts'', JList
                 [JObj [(''text'', JStr
                    (''Analyze this image and identify the main waste item. ''
                     @ ''Classify it into one of these three categories: ''
                     @ ''Biodegradable, Recyclable, or Hazardous. ''
                     @ ''Respond with only one of these three words, ''
                     @ ''followed by a colon and the name of the item. ''
                     @ ''For example: 'Recyclable: Plastic Bottle'.''))],
                  JObj [(''inlineData'',
                    JObj [(''mimeType'', JStr ''image/jpeg''), (''data'', d)])]])]])]
         in snd (scan_image (Some k) post (Some (JObj kvs))) = [(url, payload)]
            \<and> (\<forall>r. post url payload = Reply r \<longrightarrow>
                 fst (scan_image (Some k) post (Some (JObj kvs))) = Inr (jsonify r 200))))
    \<and> (map_of kvs' ''item'' = Some (JStr []) \<longrightarrow>
        get_recommendation (Some k) post (Some (JObj kvs')) =
          (Inr (jsonify (JObj [(''error'', JStr ''Item field cannot be empty.'')]) 400), []))"
proof -
  have a: "(\<exists>r. fst (scan_image (Some k) post rq) = Inr r \<and> status r = 400) =
       (\<exists>kvs. rq = Some (JObj kvs) \<and> map_of kvs ''imageData'' = None)"
  proof (cases rq)
    case None
    then show ?thesis
      using assms by (simp add: scan_image_def scan_image_try_def jsonify_def)
  next
    case (Some j)
    show ?thesis
    proof (cases "subscript_key j ''imageData''")
      case (Inl e)
      then show ?thesis
        using assms Some
        by (cases j) (auto simp: scan_image_def scan_image_try_def jsonify_def
            split: option.splits)
    next
      case (Inr d)
      then show ?thesis
        using assms Some
        by (cases j; cases "post (api_url k) (scan_payload d)")
           (auto simp: scan_image_def scan_image_try_def jsonify_def Let_def
            split: option.splits)
    qed
  qed
  have b: "map_of kvs ''imageData'' = None \<longrightarrow>
        scan_image (Some k) post (Some (JObj kvs)) =
          (Inr (jsonify (JObj [(''error'',
             JStr ''Invalid request: \"imageData\" field missing.'')]) 400), [])"
    using assms by (simp add: scan_image_def scan_image_try_def)
  have u: "api_url k = ''https://generativelanguage.googleapis.com/v1beta/models/''
                   @ ''gemini-1.5-flash-latest:generateContent?key='' @ k"
    by (simp add: api_url_def)
  have p: "scan_payload d =
               JObj [(''contents'', JList [JObj [(''parts'', JList
                 [JObj [(''text'', JStr
                    (''Analyze this image and identify the main waste item. ''
                     @ ''Classify it into one of these three categories: ''
                     @ ''Biodegradable, Recyclable, or Hazardous. ''
                     @ ''Respond with only one of these three words, ''
                     @ ''followed by a colon and the name of the item. ''
                     @ ''For example: 'Recyclable: Plastic Bottle'.''))],
                  JObj [(''inlineData'',
                    JObj [(''mimeType'', JStr ''image/jpeg''), (''data'', d)])]])]])]"
    by (simp add: scan_payload_def scan_instruction_def)
  have c: "map_of kvs ''imageData'' = Some d \<longrightarrow>
        snd (scan_image (Some k) post (Some (JObj kvs))) = [(api_url k, scan_payload d)]
        \<and> (\<forall>r. post (api_url k) (scan_payload d) = Reply r \<longrightarrow>
             fst (scan_image (Some k) post (Some (JObj kvs))) = Inr (jsonify r 200))"
    using assms
    by (simp add: scan_image_def scan_image_try_def Let_def
        split: remote_result.splits option.splits)
  have d: "map_of kvs' ''item'' = Some (JStr []) \<longrightarrow>
        get_recommendation (Some k) post (Some (JObj kvs')) =
          (Inr (jsonify (JObj [(''error'', JStr ''Item field cannot be empty.'')]) 400), [])"
    using assms by (simp add: get_recommendation_def get_recommendation_try_def)
  from c have c': "map_of kvs ''imageData'' = Some d \<longrightarrow>
        (let url = ''https://generativelanguage.googleapis.com/v1beta/models/''
                   @ ''gemini-1.5-flash-latest:generateContent?key='' @ k;
             payload =
               JObj [(''contents'', JList [JObj [(''parts'', JList
                 [JObj [(''text'', JStr
                    (''Analyze this image and identify the main waste item. ''
                     @ ''Classify it into one of these three categories: ''
                     @ ''Biodegradable, Recyclable, or Hazardous. ''
                     @ ''Respond with only one of these three words, ''
                     @ ''followed by a colon and the name of the item. ''
                     @ ''For example: 'Recyclable: Plastic Bottle'.''))],
                  JObj [(''inlineData'',
                    JObj [(''mimeType'', JStr ''image/jpeg''), (''data'', d)])]])]])]
         in snd (scan_image (Some k) post (Some (JObj kvs))) = [(url, payload)]
            \<and> (\<forall>r. post url payload = Reply r \<longrightarrow>
                 fst (scan_image (Some k) post (Some (JObj kvs))) = Inr (jsonify r 200)))"
    unfolding u p Let_def .
  from a b c' d show ?thesis
    by (intro conjI)
qed

theorem scan_image_empty_image_data_witness:
  "scan_image (Some ''secret'') replies_recyclable (Some (JObj [(''imageData'', JStr [])])) =
     (Inr (jsonify (JObj [(''candidates'', JList [JObj [(''content'',
         JObj [(''parts'', JList [JObj [(''text'', JStr ''Recyclable: Plastic Bottle'')]])])]])]) 200),
      [(''https://generativelanguage.googleapis.com/v1beta/models/''
          @ ''gemini-1.5-flash-latest:generateContent?key=secret'',
        JObj [(''contents'', JList [JObj [(''parts'', JList
          [JObj [(''text'', JStr
             (''Analyze this image and identify the main waste item. ''
              @ ''Classify it into one of these three categories: ''
              @ ''Biodegradable, Recyclable, or Hazardous. ''
              @ ''Respond with only one of these three words, ''
              @ ''followed by a colon and the name of the item. ''
              @ ''For example: 'Recyclable: Plastic Bottle'.''))],
           JObj [(''inlineData'',
             JObj [(''mimeType'', JStr ''image/jpeg''), (''data'', JStr [])])]])]])])])"
  using scan_image_empty_image_data
    [where k = "''secret''" and post = replies_recyclable and kvs = "[(''imageData'', JStr [])]"
       and d = "JStr []"]
  by (simp add: replies_recyclable_def prod_eq_iff Let_def)

end
